theory Spec2Isabelle
  imports Complex_Main "HOL-Library.Sublist"
begin

section \<open>analyze-hack.js: ranking hack targets by gain rate and experience rate\<close>

text \<open>
  The script evaluates every server of interest with \<open>getRatesAtHackLevel\<close>, attaches the
  resulting rates to the server object, extrapolates the servers that are not yet unlocked
  against the best unlocked server, and prints and writes the resulting list.

  JavaScript numbers are modelled as real numbers: \<open>Math.log\<close> is \<open>ln\<close>, \<open>Math.exp\<close> is
  \<open>exp\<close>, \<open>Math.min\<close> and \<open>Math.max\<close> are \<open>min\<close> and \<open>max\<close>. Rounding to binary64 and the
  special values \<open>NaN\<close> and \<open>\<plusminus>Infinity\<close> are outside the model, so the model speaks for runs in
  which no denominator is zero and no logarithm is taken of a non-positive number; the
  concrete runs evaluated below are all of that kind. Skill levels are integers.
\<close>

subsection \<open>Data\<close>

text \<open>
  A \<open>Server\<close> object as the game returns it from \<open>ns.getServer\<close> (the fields the script reads),
  together with the property \<open>estHackPercent\<close> that \<open>getRatesAtHackLevel\<close> writes onto it;
  \<open>None\<close> is a property that has not been set yet.
\<close>

record server =
  hostname :: string
  hasAdminRights :: bool
  purchasedByPlayer :: bool
  maxRam :: real
  moneyMax :: real
  moneyAvailable :: real
  minDifficulty :: real
  hackDifficulty :: real
  requiredHackingSkill :: int
  estHackPercent :: "real option"

text \<open>
  A server after the script has attached \<open>theoreticalGainRate\<close>, \<open>gainRate\<close> and \<open>expRate\<close> to
  it (lines 205 and 243-245). In the source these are three more properties of the same
  object; here the object is the field \<open>target\<close> and the three properties stand beside it.
\<close>

record evaluated =
  target :: server
  theoreticalGainRate :: real
  gainRate :: real
  expRate :: real

text \<open>The player object: \<open>player.skills.hacking\<close> is the only field the script touches.\<close>

record player =
  hacking :: int

text \<open>
  \<open>ns.formulas.hacking\<close>, the Formula Provider. Each function may throw (for instance when
  Formulas.exe is not owned): \<open>None\<close> is a call that throws. \<open>growPercent\<close> takes the thread
  count and the core count as its second and fourth argument.
\<close>

record hacking_formulas =
  weakenTime :: "server \<Rightarrow> player \<Rightarrow> real option"
  growTime :: "server \<Rightarrow> player \<Rightarrow> real option"
  hackTime :: "server \<Rightarrow> player \<Rightarrow> real option"
  growPercent :: "server \<Rightarrow> real \<Rightarrow> player \<Rightarrow> real \<Rightarrow> real option"
  hackPercent :: "server \<Rightarrow> player \<Rightarrow> real option"
  hackChance :: "server \<Rightarrow> player \<Rightarrow> real option"
  hackExp :: "server \<Rightarrow> player \<Rightarrow> real option"

text \<open>The command line options of \<open>argsSchema\<close>.\<close>

record options =
  opt_all :: bool
  opt_silent :: bool
  opt_at_hack_level :: int
  opt_hack_percent :: real
  opt_include_hacknet_ram :: bool
  opt_disable_formulas_api :: bool

text \<open>
  What \<open>ns.print\<close> receives, with the values that are formatted into the message: the
  warning of lines 99-106, the summary of the formulas path (lines 135-147: hack level,
  hack percent, theoretical rate, limit, exp rate, hack chance, host), the summary of the
  fallback path (lines 170-181: max money, hack time, capped hack time, theoretical rate,
  capped rate, exp rate, host), the header of line 186, the best unlocked server of line
  213 and the summary of an extrapolated server (lines 246-257: host, gain scale factor,
  scaled theoretical rate, capped rate, exp scale factor, scaled exp rate). The two server
  lists that are printed at the end are fields of the output below.
\<close>

datatype log_entry =
  WarnHackGain real string
| FormulasSummary int real real real real real string
| FallbackSummary real real real real real real string
| Header bool int real
| BestUnlocked string real
| ScaledSummary string real real real real real

text \<open>
  The variables of \<open>main\<close> that \<open>getRatesAtHackLevel\<close> closes over and never assigns:
  the option \<open>disable-formulas-api\<close>, \<open>ns.formulas.hacking\<close> (\<open>None\<close> when the provider does
  not exist, so that reaching for it throws), \<open>ns.getWeakenTime\<close>, \<open>ramTotal\<close> and
  \<open>useEstHackPercent\<close>.
\<close>

record env =
  disableFormulas :: bool
  formulas :: "hacking_formulas option"
  getWeakenTime :: "string \<Rightarrow> real"
  ramTotal :: real
  useEstHackPercent :: bool

text \<open>
  The mutable state \<open>getRatesAtHackLevel\<close> shares with \<open>main\<close>: the player object, the
  variable \<open>hackPercent\<close> of \<open>main\<close> (assigned in line 117) and the script's log.
\<close>

record state =
  thePlayer :: player
  curHackPercent :: real
  printed :: "log_entry list"

subsection \<open>getRatesAtHackLevel\<close>

definition weakenRam :: real where "weakenRam = 1.75"
definition growRam :: real where "growRam = 1.75"
definition hackRam :: real where "hackRam = 1.7"
definition minHackGain :: real where "minHackGain = 1 / 10 ^ 10"

text \<open>
  Lines 83-96: the five provider calls that come first, in the order of the source; the
  result is \<open>(growCost, hackCost, growGain, hackGain)\<close>, and \<open>None\<close> when one of them throws.
\<close>

definition formulaCosts :: "hacking_formulas \<Rightarrow> server \<Rightarrow> player \<Rightarrow> (real \<times> real \<times> real \<times> real) option" where
  "formulaCosts f srv p =
     (case weakenTime f srv p of None \<Rightarrow> None | Some wt \<Rightarrow>
       (let weakenCost = weakenRam * wt in
        case growTime f srv p of None \<Rightarrow> None | Some gt \<Rightarrow>
         (let growCost = growRam * gt + (weakenCost * 0.004) / 0.05 in
          case hackTime f srv p of None \<Rightarrow> None | Some ht \<Rightarrow>
           (let hackCost = hackRam * ht + (weakenCost * 0.002) / 0.05 in
            case growPercent f srv 1 p 1 of None \<Rightarrow> None | Some gp \<Rightarrow>
             (let growGain = ln gp in
              case hackPercent f srv p of None \<Rightarrow> None | Some hackGain \<Rightarrow>
                Some (growCost, hackCost, growGain, hackGain))))))"

text \<open>Lines 107-116: the value assigned to \<open>server.estHackPercent\<close>.\<close>

definition estimateHackPercent :: "real \<Rightarrow> real \<Rightarrow> real \<Rightarrow> real \<Rightarrow> real \<Rightarrow> real" where
  "estimateHackPercent ramTot hackGain growGain hackCost growCost =
     max minHackGain
       (min 0.98
         (min ((ramTot * hackGain) / hackCost)
              (1 - 1 / exp ((ramTot * growGain) / growCost))))"

text \<open>Lines 118-119.\<close>

definition growsPerCycle :: "real \<Rightarrow> real \<Rightarrow> real" where
  "growsPerCycle hp growGain = - ln (1 - hp) / growGain"

definition hacksPerCycle :: "real \<Rightarrow> real \<Rightarrow> real" where
  "hacksPerCycle hp hackGain = hp / hackGain"

definition assumePrepared :: "server \<Rightarrow> server" where
  \<comment> \<open>Lines 79-80: the server is taken to be at minimum security and maximum money.\<close>
  "assumePrepared srv =
     (let srv1 = srv\<lparr>hackDifficulty := minDifficulty srv\<rparr>
      in srv1\<lparr>moneyAvailable := moneyMax srv1\<rparr>)"

text \<open>
  Lines 82-147, the body of the \<open>try\<close> block, for a provider that exists. The result is the
  triple when the block runs to its end and \<open>None\<close> when a call throws; the server and the
  state are returned as they are at that moment, so an assignment made before the throw
  stays. \<open>hackChance\<close> is called a second time inside the summary message.
\<close>

definition tryFormulas :: "env \<Rightarrow> hacking_formulas \<Rightarrow> server \<Rightarrow> int \<Rightarrow> state \<Rightarrow>
    (real \<times> real \<times> real) option \<times> server \<times> state" where
  "tryFormulas e f srv hackLevel st =
     (case formulaCosts f srv (thePlayer st) of
        None \<Rightarrow> (None, srv, st)
      | Some (growCost, hackCost, growGain, hackGain) \<Rightarrow>
        let st1 = (if hackGain \<le> minHackGain
                   then st\<lparr>printed := printed st @ [WarnHackGain hackGain (hostname srv)]\<rparr>
                   else st);
            est = estimateHackPercent (ramTotal e) hackGain growGain hackCost growCost;
            srv1 = srv\<lparr>estHackPercent := Some est\<rparr>;
            st2 = (if useEstHackPercent e then st1\<lparr>curHackPercent := est\<rparr> else st1);
            hp = curHackPercent st2
        in
        (case hackChance f srv1 (thePlayer st2) of
           None \<Rightarrow> (None, srv1, st2)
         | Some chance \<Rightarrow>
           let hackProfit = moneyMax srv1 * hp * chance;
               theoretical =
                 (hackProfit / (growCost * growsPerCycle hp growGain
                                + hackCost * hacksPerCycle hp hackGain)) * 1000
           in
           (case hackExp f srv1 (thePlayer st2) of
              None \<Rightarrow> (None, srv1, st2)
            | Some ex \<Rightarrow>
              let expR = ((ex * (1 + 0.002 / 0.05)) / hackCost) * 1000;
                  capped = min theoretical (hackProfit / ramTotal e)
              in
              (case hackChance f srv1 (thePlayer st2) of
                 None \<Rightarrow> (None, srv1, st2)
               | Some chance2 \<Rightarrow>
                 (Some (theoretical, capped, expR), srv1,
                  st2\<lparr>printed := printed st2 @
                     [FormulasSummary hackLevel hp theoretical (hackProfit / ramTotal e) expR
                        chance2 (hostname srv1)]\<rparr>)))))"

text \<open>Lines 158-183: the fallback, entered when \<open>useFormulas\<close> is false.\<close>

definition fallbackRates :: "env \<Rightarrow> server \<Rightarrow> state \<Rightarrow> (real \<times> real \<times> real) \<times> server \<times> state" where
  "fallbackRates e srv st =
     (let timeToHack = getWeakenTime e (hostname srv) / 4.0;
          cappedTimeToHack = max timeToHack 200;
          relativeExpGain = 3 + minDifficulty srv * 0.3;
          srv1 = srv\<lparr>estHackPercent := Some 1\<rparr>;
          theoretical = moneyMax srv1 / timeToHack;
          capped = moneyMax srv1 / cappedTimeToHack;
          expR = relativeExpGain / timeToHack
      in ((theoretical, capped, expR), srv1,
          st\<lparr>printed := printed st @
             [FallbackSummary (moneyMax srv1) timeToHack cappedTimeToHack theoretical capped
                expR (hostname srv1)]\<rparr>))"

text \<open>
  Lines 71-184. The server and the player are objects that the caller shares, so the
  function returns them as it leaves them. \<open>finally\<close> runs on both exits of the \<open>try\<close>.
\<close>

definition getRatesAtHackLevel :: "env \<Rightarrow> server \<Rightarrow> int \<Rightarrow> state \<Rightarrow>
    (real \<times> real \<times> real) \<times> server \<times> state" where
  "getRatesAtHackLevel e srv hackLevel st =
     (if \<not> disableFormulas e then
        let realPlayerHackSkill = hacking (thePlayer st);
            st1 = st\<lparr>thePlayer := (thePlayer st)\<lparr>hacking := hackLevel\<rparr>\<rparr>;
            srv2 = assumePrepared srv;
            (res, srv3, st2) =
               (case formulas e of
                  None \<Rightarrow> (None, srv2, st1)
                | Some f \<Rightarrow> tryFormulas e f srv2 hackLevel st1);
            st3 = st2\<lparr>thePlayer := (thePlayer st2)\<lparr>hacking := realPlayerHackSkill\<rparr>\<rparr>
        in (case res of
              Some rates \<Rightarrow> (rates, srv3, st3)
            | None \<Rightarrow> fallbackRates e srv3 st3)
      else fallbackRates e srv st)"

subsection \<open>main\<close>

text \<open>
  How a run of \<open>main\<close> can stop before its end: the early return of lines 42-45 after
  \<open>hack-percent out of range (0-100)\<close> has gone to the terminal, and the \<open>TypeError\<close> of line
  215, where \<open>bestUnlockedServer\<close> is \<open>undefined\<close> because no server is unlocked.
\<close>

datatype stop = HackPercentOutOfRange | TypeError

text \<open>What \<open>ns.tprint\<close> receives in lines 264 and 288.\<close>

datatype terminal_entry = BestServer string real | BestExpServer string real

text \<open>
  A line of \<open>serverListByGain\<close> (order, host, gain rate, \<open>estHackPercent\<close>, required skill), a
  line of \<open>serverListByExp\<close> (order, host, exp rate) and an object of the array written to
  \<open>/Temp/analyze-hack.txt\<close> (\<open>hostname\<close>, \<open>gainRate\<close>, \<open>expRate\<close>).
\<close>

type_synonym gain_line = "nat \<times> string \<times> real \<times> real option \<times> int"
type_synonym exp_line = "nat \<times> string \<times> real"
type_synonym ranked_record = "string \<times> real \<times> real"

record report =
  logged :: "log_entry list"
  terminal :: "terminal_entry list"
  serverListByGain :: "gain_line list"
  serverListByExp :: "exp_line list"
  written :: "ranked_record list"

definition computeRamTotal :: "options \<Rightarrow> server list \<Rightarrow> real" where
  \<comment> \<open>Lines 55-62.\<close>
  "computeRamTotal opts servers =
     foldl (\<lambda>total srv.
        if \<not> hasAdminRights srv \<or>
           (prefix ''hacknet'' (hostname srv) \<and> \<not> opt_include_hacknet_ram opts)
        then total else total + maxRam srv) 0 servers"

definition reportedOn :: "options \<Rightarrow> int \<Rightarrow> server \<Rightarrow> bool" where
  \<comment> \<open>Lines 192-199, the filter's predicate; the second argument is \<open>player.skills.hacking\<close>.\<close>
  "reportedOn opts skill srv =
     (\<not> purchasedByPlayer srv \<and> moneyMax srv > 0 \<and>
      (opt_all opts \<or> (hasAdminRights srv \<and> requiredHackingSkill srv \<le> skill)))"

text \<open>
  \<open>toSorted\<close> and \<open>sort\<close> with a comparator \<open>(a, b) => key(b) - key(a)\<close> are stable and put
  the larger key first; \<open>sort_key\<close> is a stable insertion sort that puts the smaller key
  first. \<open>toSorted\<close> returns a new array and leaves the array it is called on as it was.
\<close>

definition toSortedDesc :: "('a \<Rightarrow> real) \<Rightarrow> 'a list \<Rightarrow> 'a list" where
  "toSortedDesc key xs = sort_key (\<lambda>x. - key x) xs"

text \<open>
  Element 0 of the sorted copy, as the position the object has in the array that was
  sorted (the sorted copy holds the same objects, not copies of them); \<open>None\<close> is
  \<open>undefined\<close>, the element 0 of an empty array.
\<close>

definition bestIndex :: "('a \<Rightarrow> real) \<Rightarrow> 'a list \<Rightarrow> nat option" where
  "bestIndex key xs =
     (case toSortedDesc (\<lambda>i. key (xs ! i)) [0 ..< length xs] of
        [] \<Rightarrow> None
      | i # _ \<Rightarrow> Some i)"

text \<open>Lines 204-208: the callback of \<open>map\<close> over the unlocked servers, and the \<open>map\<close>.\<close>

definition unlockedStep :: "env \<Rightarrow> server \<Rightarrow> state \<Rightarrow> evaluated \<times> state" where
  "unlockedStep e srv st =
     (let ((theoretical, capped, expR), srv1, st1) =
            getRatesAtHackLevel e srv (hacking (thePlayer st)) st
      in (\<lparr>target = srv1, theoreticalGainRate = theoretical, gainRate = capped,
           expRate = expR\<rparr>, st1))"

fun evalUnlocked :: "env \<Rightarrow> server list \<Rightarrow> state \<Rightarrow> evaluated list \<times> state" where
  "evalUnlocked e [] st = ([], st)"
| "evalUnlocked e (srv # rest) st =
     (let (ev, st1) = unlockedStep e srv st;
          (evs, st2) = evalUnlocked e rest st1
      in (ev # evs, st2))"

text \<open>
  Lines 225-259: the callback of \<open>map\<close> over the locked servers. \<open>bestUnlockedServer\<close> is
  an object of \<open>unlockedServers\<close>, and evaluating it again writes to that object, so the
  callback returns it as well. A scale factor is computed when the scaled rate is truthy,
  that is, not zero.
\<close>

definition lockedStep :: "env \<Rightarrow> server \<Rightarrow> evaluated \<Rightarrow> state \<Rightarrow> evaluated \<times> evaluated \<times> state" where
  "lockedStep e srv best st =
     (let ((bestUnlockedScaledGainRate, _, bestUnlockedScaledExpRate), bsrv, st1) =
            getRatesAtHackLevel e (target best) (requiredHackingSkill srv) st;
          best1 = best\<lparr>target := bsrv\<rparr>;
          gainRateScaleFactor =
            (if bestUnlockedScaledGainRate \<noteq> 0
             then theoreticalGainRate best1 / bestUnlockedScaledGainRate else 1);
          expRateScaleFactor =
            (if bestUnlockedScaledExpRate \<noteq> 0
             then expRate best1 / bestUnlockedScaledExpRate else 1);
          ((theoretical, cappedGainRate, expR), srv1, st2) =
            getRatesAtHackLevel e srv (requiredHackingSkill srv) st1;
          theoretical1 = theoretical * gainRateScaleFactor;
          expR1 = expR * expRateScaleFactor;
          gain1 = min theoretical1 cappedGainRate
      in (\<lparr>target = srv1, theoreticalGainRate = theoretical1, gainRate = gain1,
           expRate = expR1\<rparr>,
          best1,
          st2\<lparr>printed := printed st2 @
             [ScaledSummary (hostname srv1) gainRateScaleFactor theoretical1 cappedGainRate
                expRateScaleFactor expR1]\<rparr>))"

fun evalLocked :: "env \<Rightarrow> server list \<Rightarrow> evaluated \<Rightarrow> state \<Rightarrow>
    evaluated list \<times> evaluated \<times> state" where
  "evalLocked e [] best st = ([], best, st)"
| "evalLocked e (srv # rest) best st =
     (let (ev, best1, st1) = lockedStep e srv best st;
          (evs, best2, st2) = evalLocked e rest best1 st1
      in (ev # evs, best2, st2))"

text \<open>Lines 273-283, 295-301 and 306-310, each from the array it is given.\<close>

definition gainLines :: "evaluated list \<Rightarrow> gain_line list" where
  "gainLines evs =
     map (\<lambda>(order, ev). (order, hostname (target ev), gainRate ev, estHackPercent (target ev),
                          requiredHackingSkill (target ev)))
         (zip [1 ..< Suc (length evs)] evs)"

definition expLines :: "evaluated list \<Rightarrow> exp_line list" where
  "expLines evs =
     map (\<lambda>i. (Suc i, hostname (target (evs ! i)), expRate (evs ! i)))
         [0 ..< min 5 (length evs)]"

definition rankedRecords :: "evaluated list \<Rightarrow> ranked_record list" where
  "rankedRecords evs = map (\<lambda>s. (hostname (target s), gainRate s, expRate s)) evs"

text \<open>
  Lines 24-314. The arguments are what the run receives from outside: the options, the
  array \<open>serverNames.map(ns.getServer)\<close>, \<open>ns.getPlayer()\<close>, \<open>ns.formulas.hacking\<close> and
  \<open>ns.getWeakenTime\<close>. Where \<open>bestServer\<close> and \<open>bestExpServer\<close> are read, \<open>serverEval\<close> holds
  the unlocked servers, of which there is one at least, so element 0 of its sorted copy
  exists.
\<close>

definition main :: "options \<Rightarrow> server list \<Rightarrow> player \<Rightarrow> hacking_formulas option \<Rightarrow>
    (string \<Rightarrow> real) \<Rightarrow> stop + report" where
  "main opts scanned pl fs gwt =
     (let hackPercent0 = opt_hack_percent opts / 100;
          useEst = (opt_hack_percent opts = - 1)
      in
      if \<not> useEst \<and> (hackPercent0 \<le> 0 \<or> hackPercent0 \<ge> 1) then Inl HackPercentOutOfRange
      else
        let pl1 = (if opt_at_hack_level opts \<noteq> 0
                   then pl\<lparr>hacking := opt_at_hack_level opts\<rparr> else pl);
            ramTot = computeRamTotal opts scanned;
            e = \<lparr>disableFormulas = opt_disable_formulas_api opts, formulas = fs,
                 getWeakenTime = gwt, ramTotal = ramTot, useEstHackPercent = useEst\<rparr>;
            st0 = \<lparr>thePlayer = pl1, curHackPercent = hackPercent0,
                   printed = [Header (opt_all opts) (hacking pl1) ramTot]\<rparr>;
            servers = filter (reportedOn opts (hacking (thePlayer st0))) scanned;
            (unlockedServers, st1) =
               evalUnlocked e
                 (filter (\<lambda>s. requiredHackingSkill s \<le> hacking (thePlayer st0)) servers) st0
        in
        (case bestIndex gainRate unlockedServers of
           None \<Rightarrow> Inl TypeError
         | Some b \<Rightarrow>
           let bestUnlockedServer = unlockedServers ! b;
               st2 = st1\<lparr>printed := printed st1 @
                       [BestUnlocked (hostname (target bestUnlockedServer))
                          (gainRate bestUnlockedServer)]\<rparr>;
               (lockedServers, best1, st3) =
                  evalLocked e
                    (sort_key requiredHackingSkill
                       (filter (\<lambda>s. requiredHackingSkill s > hacking (thePlayer st2)) servers))
                    bestUnlockedServer st2;
               serverEval = unlockedServers[b := best1] @ lockedServers;
               bestServer = hd (toSortedDesc gainRate serverEval);
               bestExpServer = hd (toSortedDesc expRate serverEval)
           in Inr \<lparr>logged = printed st3,
                    terminal =
                      (if \<not> opt_silent opts
                       then [BestServer (hostname (target bestServer)) (gainRate bestServer),
                             BestExpServer (hostname (target bestExpServer))
                               (expRate bestExpServer)]
                       else []),
                    serverListByGain = gainLines serverEval,
                    serverListByExp = expLines serverEval,
                    written = rankedRecords serverEval\<rparr>))"

subsection \<open>Which model an evaluation uses\<close>

text \<open>
  The state in which the provider is consulted: line 77 has put the requested level on the
  player object.
\<close>

definition atHackLevel :: "int \<Rightarrow> state \<Rightarrow> state" where
  "atHackLevel hackLevel st = st\<lparr>thePlayer := (thePlayer st)\<lparr>hacking := hackLevel\<rparr>\<rparr>"

text \<open>
  The value line 107 writes to \<open>server.estHackPercent\<close>, when the five calls before it
  return.
\<close>

definition estimateWritten :: "env \<Rightarrow> hacking_formulas \<Rightarrow> server \<Rightarrow> player \<Rightarrow> real option" where
  "estimateWritten e f srv p =
     (case formulaCosts f srv p of
        None \<Rightarrow> None
      | Some (growCost, hackCost, growGain, hackGain) \<Rightarrow>
          Some (estimateHackPercent (ramTotal e) hackGain growGain hackCost growCost))"

text \<open>
  Some call of the \<open>try\<close> block throws: one of the first five, or \<open>hackChance\<close> or \<open>hackExp\<close>,
  which receive the server after line 107 has written to it.
\<close>

definition providerThrows :: "env \<Rightarrow> hacking_formulas \<Rightarrow> server \<Rightarrow> player \<Rightarrow> bool" where
  "providerThrows e f srv p =
     (case estimateWritten e f srv p of
        None \<Rightarrow> True
      | Some est \<Rightarrow>
          hackChance f (srv\<lparr>estHackPercent := Some est\<rparr>) p = None \<or>
          hackExp f (srv\<lparr>estHackPercent := Some est\<rparr>) p = None)"

text \<open>
  The evaluation ends in the fallback: the provider is disabled by the option, it does not
  exist, or one of its calls throws.
\<close>

definition usesFallback :: "env \<Rightarrow> server \<Rightarrow> int \<Rightarrow> state \<Rightarrow> bool" where
  "usesFallback e srv hackLevel st =
     (disableFormulas e \<or>
      (case formulas e of
         None \<Rightarrow> True
       | Some f \<Rightarrow>
           providerThrows e f (assumePrepared srv) (thePlayer (atHackLevel hackLevel st))))"

subsection \<open>Concrete runs\<close>

definition exServer :: "string \<Rightarrow> real \<Rightarrow> real \<Rightarrow> int \<Rightarrow> server" where
  "exServer h money diff skill =
     \<lparr>hostname = h, hasAdminRights = True, purchasedByPlayer = False, maxRam = 16,
      moneyMax = money, moneyAvailable = 0, minDifficulty = diff, hackDifficulty = diff + 5,
      requiredHackingSkill = skill, estHackPercent = None\<rparr>"

definition n00dles :: server where "n00dles = exServer ''n00dles'' 1000 1 1"
definition foodnstuff :: server where "foodnstuff = exServer ''foodnstuff'' 2000 10 1"
definition joesguns :: server where "joesguns = exServer ''joesguns'' 5000 5 50"

definition exWeakenTime :: "string \<Rightarrow> real" where "exWeakenTime h = 4000"

definition exPlayer :: player where "exPlayer = \<lparr>hacking = 10\<rparr>"

definition exState :: "real \<Rightarrow> state" where
  "exState hp = \<lparr>thePlayer = exPlayer, curHackPercent = hp, printed = []\<rparr>"

text \<open>A provider whose answers do not depend on the server or the player.\<close>

definition returning :: "real \<Rightarrow> server \<Rightarrow> player \<Rightarrow> real option" where
  "returning x srv p = Some x"

definition growing :: "real \<Rightarrow> server \<Rightarrow> real \<Rightarrow> player \<Rightarrow> real \<Rightarrow> real option" where
  "growing g srv threads p cores = Some g"

definition throwing :: "server \<Rightarrow> player \<Rightarrow> real option" where
  "throwing srv p = None"

definition exFormulas :: "real \<Rightarrow> hacking_formulas" where
  "exFormulas hackGain =
     \<lparr>weakenTime = returning 4000, growTime = returning 3200, hackTime = returning 1000,
      growPercent = growing 2, hackPercent = returning hackGain,
      hackChance = returning 1, hackExp = returning 99\<rparr>"

text \<open>The same provider, except that \<open>hackExp\<close> throws: the \<open>try\<close> block fails partway.\<close>

definition exThrowingFormulas :: hacking_formulas where
  "exThrowingFormulas = (exFormulas 0.002)\<lparr>hackExp := throwing\<rparr>"

definition exEnv :: "bool \<Rightarrow> hacking_formulas option \<Rightarrow> bool \<Rightarrow> env" where
  "exEnv disabled fs auto =
     \<lparr>disableFormulas = disabled, formulas = fs, getWeakenTime = exWeakenTime,
      ramTotal = 6160, useEstHackPercent = auto\<rparr>"

text \<open>Scenario A of the specification: the fallback model on a server with these values.\<close>

definition scenarioAWeakenTime :: "string \<Rightarrow> real" where "scenarioAWeakenTime h = 400000"

definition scenarioAServer :: server where
  "scenarioAServer = exServer ''scenario-a'' 1000000 10 1"

definition scenarioAEnv :: "bool \<Rightarrow> hacking_formulas option \<Rightarrow> env" where
  "scenarioAEnv disabled fs =
     \<lparr>disableFormulas = disabled, formulas = fs, getWeakenTime = scenarioAWeakenTime,
      ramTotal = 1000, useEstHackPercent = True\<rparr>"

text \<open>A server that is weakened in 400 ms, so that the cap of 200 ms on the hack time binds.\<close>

definition quickWeakenTime :: "string \<Rightarrow> real" where "quickWeakenTime h = 400"

definition quickEnv :: env where
  "quickEnv = (exEnv False None True)\<lparr>getWeakenTime := quickWeakenTime\<rparr>"

text \<open>
  A run of \<open>main\<close> with \<open>--all --disable-formulas-api\<close> at hacking skill 10 over three servers:
  two are unlocked, one needs skill 50.
\<close>

definition exOptions :: options where
  "exOptions =
     \<lparr>opt_all = True, opt_silent = False, opt_at_hack_level = 0, opt_hack_percent = - 1,
      opt_include_hacknet_ram = False, opt_disable_formulas_api = True\<rparr>"

definition exRun :: "stop + report" where
  "exRun = main exOptions [n00dles, foodnstuff, joesguns] exPlayer None exWeakenTime"

text \<open>
  \<open>foodnstuff\<close> as the \<open>map\<close> of lines 204-208 leaves it under \<open>quickEnv\<close>, to serve as
  \<open>bestUnlockedServer\<close>.
\<close>

definition exBest :: evaluated where
  "exBest =
     \<lparr>target = foodnstuff\<lparr>hackDifficulty := 10, moneyAvailable := 2000, estHackPercent := Some 1\<rparr>,
      theoreticalGainRate = 20, gainRate = 10, expRate = 6 / 100\<rparr>"

section \<open>Facts about the model\<close>

lemmas ex_defs =
  exServer_def n00dles_def foodnstuff_def joesguns_def exWeakenTime_def exPlayer_def
  exState_def returning_def growing_def throwing_def exFormulas_def exThrowingFormulas_def
  exEnv_def scenarioAWeakenTime_def scenarioAServer_def scenarioAEnv_def quickWeakenTime_def
  quickEnv_def exOptions_def exBest_def

lemmas rate_defs =
  getRatesAtHackLevel_def tryFormulas_def fallbackRates_def formulaCosts_def
  assumePrepared_def estimateHackPercent_def growsPerCycle_def hacksPerCycle_def
  weakenRam_def growRam_def hackRam_def minHackGain_def Let_def

lemmas path_defs = usesFallback_def providerThrows_def estimateWritten_def atHackLevel_def

lemmas main_defs =
  main_def computeRamTotal_def reportedOn_def unlockedStep_def lockedStep_def bestIndex_def
  toSortedDesc_def gainLines_def expLines_def rankedRecords_def

subsection \<open>getRatesAtHackLevel\<close>

lemma fallbackRates_player: "thePlayer (snd (snd (fallbackRates e srv st))) = thePlayer st"
  by (simp add: fallbackRates_def Let_def)

lemma tryFormulas_player: "thePlayer (snd (snd (tryFormulas e f srv lvl st))) = thePlayer st"
  by (simp add: tryFormulas_def Let_def split: option.splits prod.splits)

lemma tryFormulas_throws:
  "fst (tryFormulas e f srv lvl st) = None \<longleftrightarrow> providerThrows e f srv (thePlayer st)"
  by (auto simp: tryFormulas_def providerThrows_def estimateWritten_def Let_def
      split: option.splits)

lemma tryFormulas_keeps:
  "fst (snd (tryFormulas e f srv lvl st)) = srv \<or>
   (\<exists>est. estimateWritten e f srv (thePlayer st) = Some est \<and>
      fst (snd (tryFormulas e f srv lvl st)) = srv\<lparr>estHackPercent := Some est\<rparr>)"
  by (auto simp: tryFormulas_def estimateWritten_def Let_def split: option.splits)

lemma tryFormulas_writes:
  "estimateWritten e f srv (thePlayer st) = Some est \<Longrightarrow>
   fst (snd (tryFormulas e f srv lvl st)) = srv\<lparr>estHackPercent := Some est\<rparr> \<and>
   curHackPercent (snd (snd (tryFormulas e f srv lvl st))) =
     (if useEstHackPercent e then est else curHackPercent st)"
  by (auto simp: tryFormulas_def estimateWritten_def Let_def split: option.splits)

lemma fallbackRates_reads:
  "hostname srv' = hostname srv \<Longrightarrow> moneyMax srv' = moneyMax srv \<Longrightarrow>
   minDifficulty srv' = minDifficulty srv \<Longrightarrow>
   fst (fallbackRates e srv' st') = fst (fallbackRates e srv st)"
  by (simp add: fallbackRates_def Let_def)

lemma fallbackRates_server:
  "fst (snd (fallbackRates e srv st)) = srv\<lparr>estHackPercent := Some 1\<rparr>"
  by (simp add: fallbackRates_def Let_def)

lemma getRates_disabled:
  "disableFormulas e \<Longrightarrow> getRatesAtHackLevel e srv lvl st = fallbackRates e srv st"
  by (simp add: getRatesAtHackLevel_def)

text \<open>The shape of an evaluation with the provider enabled.\<close>

lemma getRates_enabled:
  assumes "\<not> disableFormulas e"
  shows "\<exists>srv3 st3.
      (srv3 = assumePrepared srv \<or>
       (\<exists>f est. formulas e = Some f \<and>
          estimateWritten e f (assumePrepared srv) (thePlayer (atHackLevel lvl st)) = Some est \<and>
          srv3 = (assumePrepared srv)\<lparr>estHackPercent := Some est\<rparr>)) \<and>
      thePlayer st3 = thePlayer st \<and>
      (if usesFallback e srv lvl st
       then getRatesAtHackLevel e srv lvl st = fallbackRates e srv3 st3
       else fst (snd (getRatesAtHackLevel e srv lvl st)) = srv3 \<and>
            (\<exists>f est. formulas e = Some f \<and>
               estimateWritten e f (assumePrepared srv) (thePlayer (atHackLevel lvl st)) = Some est \<and>
               srv3 = (assumePrepared srv)\<lparr>estHackPercent := Some est\<rparr> \<and>
               curHackPercent (snd (snd (getRatesAtHackLevel e srv lvl st))) =
                 (if useEstHackPercent e then est else curHackPercent st)))"
proof (cases "formulas e")
  case None
  with assms show ?thesis
    by (auto simp: getRatesAtHackLevel_def usesFallback_def Let_def intro!: exI)
next
  case (Some f)
  let ?st1 = "atHackLevel lvl st"
  let ?r = "tryFormulas e f (assumePrepared srv) lvl ?st1"
  obtain res srv3 st2 where r: "?r = (res, srv3, st2)" by (cases ?r)
  have pl: "thePlayer st2 = thePlayer ?st1"
    using tryFormulas_player [of e f "assumePrepared srv" lvl ?st1] r by simp
  have keeps: "srv3 = assumePrepared srv \<or>
      (\<exists>est. estimateWritten e f (assumePrepared srv) (thePlayer ?st1) = Some est \<and>
         srv3 = (assumePrepared srv)\<lparr>estHackPercent := Some est\<rparr>)"
    using tryFormulas_keeps [of e f "assumePrepared srv" lvl ?st1] r by simp
  have thr: "res = None \<longleftrightarrow> usesFallback e srv lvl st"
    using tryFormulas_throws [of e f "assumePrepared srv" lvl ?st1] r assms Some
    by (simp add: usesFallback_def)
  let ?st3 = "st2\<lparr>thePlayer := (thePlayer st2)\<lparr>hacking := hacking (thePlayer st)\<rparr>\<rparr>"
  have pl3: "thePlayer ?st3 = thePlayer st"
    using pl by (simp add: atHackLevel_def)
  show ?thesis
  proof (cases "usesFallback e srv lvl st")
    case True
    with thr have "res = None" by simp
    then have "getRatesAtHackLevel e srv lvl st = fallbackRates e srv3 ?st3"
      using assms Some r by (simp add: getRatesAtHackLevel_def Let_def atHackLevel_def)
    with True keeps pl3 Some show ?thesis
      by (intro exI [of _ srv3] exI [of _ ?st3]) auto
  next
    case False
    with thr obtain rates where res: "res = Some rates" by (cases res) auto
    then have g: "getRatesAtHackLevel e srv lvl st = (rates, srv3, ?st3)"
      using assms Some r by (simp add: getRatesAtHackLevel_def Let_def atHackLevel_def)
    from False assms Some obtain est where
      est: "estimateWritten e f (assumePrepared srv) (thePlayer ?st1) = Some est"
      by (auto simp: usesFallback_def providerThrows_def split: option.splits)
    from tryFormulas_writes [OF est, of lvl] r
    have "srv3 = (assumePrepared srv)\<lparr>estHackPercent := Some est\<rparr>"
      and "curHackPercent st2 = (if useEstHackPercent e then est else curHackPercent ?st1)"
      by simp_all
    with False g est Some pl3 show ?thesis
      by (intro exI [of _ srv3] exI [of _ ?st3]) (auto simp: atHackLevel_def)
  qed
qed

lemma assumePrepared_reads:
  "hostname (assumePrepared srv) = hostname srv"
  "moneyMax (assumePrepared srv) = moneyMax srv"
  "minDifficulty (assumePrepared srv) = minDifficulty srv"
  "hackDifficulty (assumePrepared srv) = minDifficulty srv"
  "moneyAvailable (assumePrepared srv) = moneyMax srv"
  by (simp_all add: assumePrepared_def Let_def)

lemma getRates_fallback_rates:
  assumes "usesFallback e srv lvl st"
  shows "fst (getRatesAtHackLevel e srv lvl st) = fst (fallbackRates e srv st)"
proof (cases "disableFormulas e")
  case True
  then show ?thesis by (simp add: getRates_disabled)
next
  case False
  from getRates_enabled [OF False, of srv lvl st] assms
  obtain srv3 st3 where
    "srv3 = assumePrepared srv \<or> (\<exists>est. srv3 = (assumePrepared srv)\<lparr>estHackPercent := Some est\<rparr>)"
    and "getRatesAtHackLevel e srv lvl st = fallbackRates e srv3 st3"
    by auto
  then show ?thesis
    by (auto simp: assumePrepared_reads intro: fallbackRates_reads)
qed

lemma getRates_fallback_server:
  assumes "usesFallback e srv lvl st"
  shows "fst (snd (getRatesAtHackLevel e srv lvl st)) =
    (if disableFormulas e then srv else assumePrepared srv)\<lparr>estHackPercent := Some 1\<rparr>"
proof (cases "disableFormulas e")
  case True
  then show ?thesis by (simp add: getRates_disabled fallbackRates_server)
next
  case False
  from getRates_enabled [OF False, of srv lvl st] assms
  obtain srv3 st3 where
    "srv3 = assumePrepared srv \<or> (\<exists>est. srv3 = (assumePrepared srv)\<lparr>estHackPercent := Some est\<rparr>)"
    and "getRatesAtHackLevel e srv lvl st = fallbackRates e srv3 st3"
    by auto
  with False show ?thesis
    by (auto simp: fallbackRates_server)
qed

lemma getRates_formulas_server:
  assumes "\<not> usesFallback e srv lvl st"
  shows "\<exists>f est. formulas e = Some f \<and>
     estimateWritten e f (assumePrepared srv) (thePlayer (atHackLevel lvl st)) = Some est \<and>
     fst (snd (getRatesAtHackLevel e srv lvl st)) = (assumePrepared srv)\<lparr>estHackPercent := Some est\<rparr> \<and>
     curHackPercent (snd (snd (getRatesAtHackLevel e srv lvl st))) =
       (if useEstHackPercent e then est else curHackPercent st)"
proof -
  from assms have "\<not> disableFormulas e" by (simp add: usesFallback_def)
  from getRates_enabled [OF this, of srv lvl st] assms show ?thesis by auto
qed

lemma getRates_player:
  "thePlayer (snd (snd (getRatesAtHackLevel e srv lvl st))) = thePlayer st"
proof (cases "disableFormulas e")
  case True
  then show ?thesis by (simp add: getRates_disabled fallbackRates_player)
next
  case False
  then show ?thesis
    by (simp add: getRatesAtHackLevel_def Let_def fallbackRates_player tryFormulas_player
        split: option.splits prod.splits)
qed

lemma estimateHackPercent_bounds:
  "minHackGain \<le> estimateHackPercent c hg gg hc gc \<and> estimateHackPercent c hg gg hc gc \<le> 0.98"
proof -
  have "minHackGain \<le> (0.98::real)" by (simp add: minHackGain_def)
  then show ?thesis
    unfolding estimateHackPercent_def
    by (intro conjI max.cobounded1 max.boundedI min.cobounded1)
qed

lemma estimateWritten_bounds:
  "estimateWritten e f srv p = Some est \<Longrightarrow> 0 < est \<and> est \<le> 0.98"
proof -
  assume "estimateWritten e f srv p = Some est"
  then obtain c hg gg hc gc where "est = estimateHackPercent c hg gg hc gc"
    by (auto simp: estimateWritten_def split: option.splits)
  moreover have "0 < minHackGain" by (simp add: minHackGain_def)
  ultimately show ?thesis
    using estimateHackPercent_bounds [of c hg gg hc gc] by simp
qed

lemma exp_half_bounds:
  "6065 / 10000 < exp (- (1/2) :: real) \<and> exp (- (1/2) :: real) < 6066 / 10000"
proof -
  obtain t :: real where t: "\<bar>t\<bar> \<le> \<bar>- (1/2)\<bar>"
    and e: "exp (- (1/2) :: real) = (\<Sum>m<6. ((- (1/2)) ^ m) / fact m) + (exp t / fact 6) * (- (1/2)) ^ 6"
    using Maclaurin_exp_le [of "- (1/2)" 6] by blast
  have s: "(\<Sum>m<6. ((- (1/2) :: real) ^ m) / fact m) = 2329 / 3840"
    by (simp add: lessThan_nat_numeral lessThan_Suc fact_numeral power_divide)
  have "norm (exp t) \<le> 2" using t by (intro exp_bound_half) simp
  then have u: "exp t \<le> 2" by simp
  have l: "0 < exp t" by simp
  have r: "(exp t / fact 6) * (- (1/2)) ^ 6 = exp t / 46080"
    by (simp add: fact_numeral power_divide)
  from e s r have eq: "exp (- (1/2) :: real) = 2329 / 3840 + exp t / 46080" by simp
  have lo: "0 < exp t / 46080" by simp
  have hi: "exp t / 46080 \<le> 2 / 46080" using u by simp
  from eq lo hi show ?thesis by linarith
qed

text \<open>
  Which calls make \<open>providerThrows\<close> true: any of the first five, or one of the two that
  follow the assignment to \<open>estHackPercent\<close>.
\<close>

lemma providerThrows_calls:
  "providerThrows e f srv p \<longleftrightarrow>
     weakenTime f srv p = None \<or> growTime f srv p = None \<or> hackTime f srv p = None \<or>
     growPercent f srv 1 p 1 = None \<or> hackPercent f srv p = None \<or>
     (\<exists>est. estimateWritten e f srv p = Some est \<and>
        (hackChance f (srv\<lparr>estHackPercent := Some est\<rparr>) p = None \<or>
         hackExp f (srv\<lparr>estHackPercent := Some est\<rparr>) p = None))"
proof (cases "formulaCosts f srv p")
  case None
  then show ?thesis
    by (auto simp: providerThrows_def estimateWritten_def formulaCosts_def Let_def
        split: option.splits)
next
  case (Some c)
  then have "\<not> (weakenTime f srv p = None \<or> growTime f srv p = None \<or>
      hackTime f srv p = None \<or> growPercent f srv 1 p 1 = None \<or> hackPercent f srv p = None)"
    by (auto simp: formulaCosts_def Let_def split: option.splits)
  with Some show ?thesis
    by (cases c) (auto simp: providerThrows_def estimateWritten_def split: option.splits)
qed

subsection \<open>The concrete runs\<close>

lemma ex_formulas_path:
  "\<not> usesFallback (exEnv False (Some (exFormulas 0.002)) auto) n00dles 10 (exState hp)"
  by (simp add: path_defs rate_defs ex_defs)

lemma ex_formulas_costs:
  "formulaCosts (exFormulas 0.002) (assumePrepared n00dles) (thePlayer (atHackLevel 10 (exState hp)))
     = Some (6160, 1980, ln 2, 0.002)"
  by (simp add: path_defs rate_defs ex_defs)

lemma ex_formulas_server:
  "fst (snd (getRatesAtHackLevel (exEnv False (Some (exFormulas 0.002)) True) n00dles 10
     (exState (- 0.01)))) =
   n00dles\<lparr>hackDifficulty := 1, moneyAvailable := 1000, estHackPercent := Some (7 / 1125)\<rparr>"
  by (simp add: rate_defs ex_defs)

lemma exRun_lists:
  "\<exists>r. exRun = Inr r \<and>
     written r =
       [(''n00dles'', 1, 33 / 10000), (''foodnstuff'', 2, 3 / 500), (''joesguns'', 5, 9 / 2000)] \<and>
     serverListByGain r =
       [(1, ''n00dles'', 1, Some 1, 1), (2, ''foodnstuff'', 2, Some 1, 1),
        (3, ''joesguns'', 5, Some 1, 50)] \<and>
     serverListByExp r =
       [(1, ''n00dles'', 33 / 10000), (2, ''foodnstuff'', 3 / 500), (3, ''joesguns'', 9 / 2000)] \<and>
     terminal r = [BestServer ''joesguns'' 5, BestExpServer ''foodnstuff'' (3 / 500)]"
  by (simp add: exRun_def main_defs ex_defs getRates_disabled fallbackRates_def Let_def upt_rec)

text \<open>
  The exp list holds the first five servers of \<open>serverEval\<close>, in the order of that array.
\<close>

lemma expLines_hosts:
  "map (fst \<circ> snd) (expLines evs) = map (hostname \<circ> target) (take 5 evs)"
  by (auto simp: expLines_def list_eq_iff_nth_eq)

lemma estimate_exp_form:
  "estimateHackPercent c hg gg hc gc =
     max (1 / 10 ^ 10) (min 0.98 (min (c * hg / hc) (1 - exp (- (c * gg / gc)))))"
  by (simp add: estimateHackPercent_def minHackGain_def exp_minus inverse_eq_divide)

lemma scenarioB_value: "estimateHackPercent 1000 0.02 0.1 50 200 = 1 - exp (- (1 / 2))"
proof -
  have "1 - exp (- (1 / 2) :: real) \<le> 0.4" "1 / 10 ^ 10 \<le> 1 - exp (- (1 / 2) :: real)"
    using exp_half_bounds by simp_all
  then show ?thesis
    by (simp add: estimate_exp_form)
qed

section \<open>The properties of the specification\<close>

text \<open>
  C1. The claim: the merged list of unlocked and extrapolated servers, as it is printed in
  full and as it is written to the file, is in descending order of gain rate. In the source
  \<open>toSorted\<close> sorts a copy, of which only element 0 is read; \<open>serverEval\<close> itself stays in the
  order of evaluation, and that array is printed and written. In the run \<open>exRun\<close> the file
  and the printed list hold the gain rates 1, 2, 5 in this order, which is not descending.
\<close>

theorem written_list_keeps_evaluation_order:
  "case exRun of
     Inl stopped \<Rightarrow> False
   | Inr r \<Rightarrow>
       written r =
         [(''n00dles'', 1, 33 / 10000), (''foodnstuff'', 2, 3 / 500),
          (''joesguns'', 5, 9 / 2000)] \<and>
       serverListByGain r =
         [(1, ''n00dles'', 1, Some 1, 1), (2, ''foodnstuff'', 2, Some 1, 1),
          (3, ''joesguns'', 5, Some 1, 50)] \<and>
       \<not> sorted_wrt (\<ge>) (map (fst \<circ> snd) (written r)) \<and>
       \<not> sorted_wrt (\<ge>) (map (fst \<circ> snd \<circ> snd) (serverListByGain r))"
proof -
  from exRun_lists obtain r where r: "exRun = Inr r"
    and w: "written r =
       [(''n00dles'', 1, 33 / 10000), (''foodnstuff'', 2, 3 / 500), (''joesguns'', 5, 9 / 2000)]"
    and g: "serverListByGain r =
       [(1, ''n00dles'', 1, Some 1, 1), (2, ''foodnstuff'', 2, Some 1, 1),
        (3, ''joesguns'', 5, Some 1, 50)]"
    and x: "serverListByExp r =
       [(1, ''n00dles'', 33 / 10000), (2, ''foodnstuff'', 3 / 500), (3, ''joesguns'', 9 / 2000)]"
    and t: "terminal r = [BestServer ''joesguns'' 5, BestExpServer ''foodnstuff'' (3 / 500)]"
    by blast
  show ?thesis by (simp add: r w g x t)
qed

text \<open>
  C2. The claim: the \<open>estHackPercent\<close> recorded for an evaluated server lies in \<open>(0, 0.98]\<close>
  whichever model evaluated it. The fallback writes 1 (line 164), so the bound holds for the
  formulas model only. As amended: when the evaluation ends in the fallback the recorded
  fraction is exactly 1; when it does not, the recorded fraction \<open>f\<close> satisfies
  \<open>0 < f \<le> 0.98\<close>.
\<close>

theorem estHackPercent_by_model:
  "(usesFallback e srv hackLevel st \<longrightarrow>
      estHackPercent (fst (snd (getRatesAtHackLevel e srv hackLevel st))) = Some 1) \<and>
   (\<not> usesFallback e srv hackLevel st \<longrightarrow>
      (\<exists>f. estHackPercent (fst (snd (getRatesAtHackLevel e srv hackLevel st))) = Some f \<and>
           0 < f \<and> f \<le> 0.98))"
proof (intro conjI impI)
  assume "usesFallback e srv hackLevel st"
  then show "estHackPercent (fst (snd (getRatesAtHackLevel e srv hackLevel st))) = Some 1"
    by (simp add: getRates_fallback_server)
next
  assume "\<not> usesFallback e srv hackLevel st"
  from getRates_formulas_server [OF this] obtain f est where
    "estimateWritten e f (assumePrepared srv) (thePlayer (atHackLevel hackLevel st)) = Some est"
    and "fst (snd (getRatesAtHackLevel e srv hackLevel st)) =
      (assumePrepared srv)\<lparr>estHackPercent := Some est\<rparr>"
    by blast
  then show "\<exists>f. estHackPercent (fst (snd (getRatesAtHackLevel e srv hackLevel st))) = Some f \<and>
      0 < f \<and> f \<le> 0.98"
    using estimateWritten_bounds by fastforce
qed

text \<open>
  C2, the counterexample: with the provider disabled the recorded fraction is 1, which is
  above 0.98.
\<close>

theorem fallback_fraction_is_one_counterexample:
  "estHackPercent (fst (snd (getRatesAtHackLevel (exEnv True None True) n00dles 10
      (exState (- 0.01))))) = Some 1 \<and>
   \<not> (0 < (1::real) \<and> (1::real) \<le> 0.98)"
  by (simp add: rate_defs ex_defs)

text \<open>
  C2, the amended statement at two concrete evaluations: the provider answers every call
  (the fraction is 7/1125), and \<open>hackExp\<close> throws (the fraction is 1).
\<close>

theorem estHackPercent_by_model_witness:
  "estHackPercent (fst (snd (getRatesAtHackLevel (exEnv False (Some (exFormulas 0.002)) True)
      n00dles 10 (exState (- 0.01))))) = Some (7 / 1125) \<and>
   (\<exists>f. estHackPercent (fst (snd (getRatesAtHackLevel (exEnv False (Some (exFormulas 0.002)) True)
      n00dles 10 (exState (- 0.01))))) = Some f \<and> 0 < f \<and> f \<le> 0.98) \<and>
   usesFallback (exEnv False (Some exThrowingFormulas) True) n00dles 10 (exState (- 0.01)) \<and>
   estHackPercent (fst (snd (getRatesAtHackLevel (exEnv False (Some exThrowingFormulas) True)
      n00dles 10 (exState (- 0.01))))) = Some 1"
proof -
  have t: "usesFallback (exEnv False (Some exThrowingFormulas) True) n00dles 10 (exState (- 0.01))"
    by (simp add: path_defs rate_defs ex_defs)
  show ?thesis
    using t ex_formulas_path [of True "- 0.01"] ex_formulas_server
      estHackPercent_by_model
        [of "exEnv False (Some (exFormulas 0.002)) True" n00dles 10 "exState (- 0.01)"]
      estHackPercent_by_model
        [of "exEnv False (Some exThrowingFormulas) True" n00dles 10 "exState (- 0.01)"]
    by simp
qed

text \<open>
  C3. The player's hacking skill is the same after \<open>getRatesAtHackLevel\<close> returns as before
  the call, for every provider, hence also for one that throws partway through the \<open>try\<close>
  block: line 152 runs on both exits.
\<close>

theorem getRatesAtHackLevel_restores_skill:
  "hacking (thePlayer (snd (snd (getRatesAtHackLevel e srv hackLevel st)))) =
     hacking (thePlayer st)"
  by (simp add: getRates_player)

text \<open>
  C3 at a provider whose \<open>hackExp\<close> throws, evaluated at level 50 for a player of skill 10.
\<close>

theorem getRatesAtHackLevel_restores_skill_witness:
  "providerThrows (exEnv False (Some exThrowingFormulas) True) exThrowingFormulas
      (assumePrepared n00dles) \<lparr>hacking = 50\<rparr> \<and>
   hacking (thePlayer (snd (snd (getRatesAtHackLevel (exEnv False (Some exThrowingFormulas) True)
      n00dles 50 (exState 0))))) = 10"
  using getRatesAtHackLevel_restores_skill
    [of "exEnv False (Some exThrowingFormulas) True" n00dles 50 "exState 0"]
  by (simp add: path_defs rate_defs ex_defs)

text \<open>
  C4. When the provider is disabled by the option, absent, or throws at one of its calls,
  \<open>getRatesAtHackLevel\<close> returns the triple of the fallback model for the server it was
  given. The function has no error result: every call that can throw stands inside the
  \<open>try\<close> block, whose \<open>catch\<close> has no rethrow, and \<open>ns.getWeakenTime\<close> is taken to return.
\<close>

theorem provider_failure_uses_fallback:
  assumes "disableFormulas e \<or> formulas e = None \<or>
     (\<exists>f. formulas e = Some f \<and>
        providerThrows e f (assumePrepared srv) ((thePlayer st)\<lparr>hacking := hackLevel\<rparr>))"
  shows "fst (getRatesAtHackLevel e srv hackLevel st) = fst (fallbackRates e srv st)"
proof -
  from assms have "usesFallback e srv hackLevel st"
    by (auto simp: usesFallback_def atHackLevel_def split: option.splits)
  then show ?thesis by (rule getRates_fallback_rates)
qed

text \<open>
  C4 at the three kinds of failure: \<open>hackExp\<close> throws, no provider, provider disabled.
\<close>

theorem provider_failure_uses_fallback_witness:
  "providerThrows (exEnv False (Some exThrowingFormulas) True) exThrowingFormulas
      (assumePrepared n00dles) ((thePlayer (exState 0))\<lparr>hacking := 50\<rparr>) \<and>
   fst (getRatesAtHackLevel (exEnv False (Some exThrowingFormulas) True) n00dles 50 (exState 0)) =
     (1, 1, 33 / 10000) \<and>
   fst (getRatesAtHackLevel (exEnv False None True) n00dles 50 (exState 0)) = (1, 1, 33 / 10000) \<and>
   fst (getRatesAtHackLevel (exEnv True (Some (exFormulas 0.002)) True) n00dles 50 (exState 0)) =
     (1, 1, 33 / 10000)"
proof -
  have t: "providerThrows (exEnv False (Some exThrowingFormulas) True) exThrowingFormulas
      (assumePrepared n00dles) ((thePlayer (exState 0))\<lparr>hacking := 50\<rparr>)"
    by (simp add: path_defs rate_defs ex_defs)
  have f: "fst (fallbackRates (exEnv d fs True) n00dles (exState 0)) = (1, 1, 33 / 10000)" for d fs
    by (simp add: fallbackRates_def ex_defs Let_def)
  show ?thesis
    using t f
      provider_failure_uses_fallback
        [where e = "exEnv False (Some exThrowingFormulas) True" and srv = n00dles
           and st = "exState 0" and hackLevel = 50]
      provider_failure_uses_fallback
        [where e = "exEnv False None True" and srv = n00dles and st = "exState 0"
           and hackLevel = 50]
      provider_failure_uses_fallback
        [where e = "exEnv True (Some (exFormulas 0.002)) True" and srv = n00dles
           and st = "exState 0" and hackLevel = 50]
    by (simp add: exEnv_def)
qed

text \<open>
  C5. In auto mode, when the provider answers every call and the costs and gains are
  \<open>growCost\<close>, \<open>hackCost\<close>, \<open>growGain\<close>, \<open>hackGain\<close> (neither cost being zero, so that the
  two quotients are those of the source), the fraction recorded on the server
  and used as \<open>hackPercent\<close> is
  \<open>max(1e-10, min(0.98, min(C\<cdot>hackGain/hackCost, 1 - e^(-C\<cdot>growGain/growCost))))\<close> with
  \<open>C = ramTotal\<close>. For \<open>C = 1000\<close>, \<open>hackGain = 0.02\<close>, \<open>growGain = 0.1\<close>, \<open>hackCost = 50\<close>,
  \<open>growCost = 200\<close> the estimate is \<open>min(0.98, min(0.4, 1 - e^(-0.5))) = 1 - e^(-0.5)\<close>, within
  0.0001 of 0.3935.
\<close>

theorem auto_mode_estimate:
  assumes "useEstHackPercent e" and "formulas e = Some f"
    and "\<not> usesFallback e srv hackLevel st"
    and "formulaCosts f (assumePrepared srv) ((thePlayer st)\<lparr>hacking := hackLevel\<rparr>) =
           Some (growCost, hackCost, growGain, hackGain)"
    and "hackCost \<noteq> 0" and "growCost \<noteq> 0"
  shows "estHackPercent (fst (snd (getRatesAtHackLevel e srv hackLevel st))) =
           Some (max (1 / 10 ^ 10) (min 0.98 (min (ramTotal e * hackGain / hackCost)
                   (1 - exp (- (ramTotal e * growGain / growCost)))))) \<and>
         curHackPercent (snd (snd (getRatesAtHackLevel e srv hackLevel st))) =
           max (1 / 10 ^ 10) (min 0.98 (min (ramTotal e * hackGain / hackCost)
                   (1 - exp (- (ramTotal e * growGain / growCost))))) \<and>
         estimateHackPercent 1000 0.02 0.1 50 200 =
           min 0.98 (min (1000 * 0.02 / 50) (1 - exp (- (1000 * 0.1 / 200)))) \<and>
         min 0.98 (min (1000 * 0.02 / 50) (1 - exp (- (1000 * 0.1 / 200)))) = 1 - exp (- 0.5 :: real) \<and>
         \<bar>estimateHackPercent 1000 0.02 0.1 50 200 - 0.3935\<bar> < 0.0001"
proof -
  from getRates_formulas_server [OF assms(3)] assms(1,2,4)
  have "fst (snd (getRatesAtHackLevel e srv hackLevel st)) =
      (assumePrepared srv)\<lparr>estHackPercent :=
         Some (estimateHackPercent (ramTotal e) hackGain growGain hackCost growCost)\<rparr>"
    and "curHackPercent (snd (snd (getRatesAtHackLevel e srv hackLevel st))) =
      estimateHackPercent (ramTotal e) hackGain growGain hackCost growCost"
    by (auto simp: estimateWritten_def atHackLevel_def)
  then have a: "estHackPercent (fst (snd (getRatesAtHackLevel e srv hackLevel st))) =
           Some (max (1 / 10 ^ 10) (min 0.98 (min (ramTotal e * hackGain / hackCost)
                   (1 - exp (- (ramTotal e * growGain / growCost))))))"
    and b: "curHackPercent (snd (snd (getRatesAtHackLevel e srv hackLevel st))) =
           max (1 / 10 ^ 10) (min 0.98 (min (ramTotal e * hackGain / hackCost)
                   (1 - exp (- (ramTotal e * growGain / growCost)))))"
    by (simp_all add: estimate_exp_form)
  have h: "6065 / 10000 < exp (- (1/2) :: real)" "exp (- (1/2) :: real) < 6066 / 10000"
    using exp_half_bounds by simp_all
  have c: "min 0.98 (min (1000 * 0.02 / 50) (1 - exp (- (1000 * 0.1 / 200)))) = 1 - exp (- 0.5 :: real)"
    using h by simp
  have d: "estimateHackPercent 1000 0.02 0.1 50 200 =
           min 0.98 (min (1000 * 0.02 / 50) (1 - exp (- (1000 * 0.1 / 200))))"
    using scenarioB_value c by simp
  have "\<bar>(1 - exp (- (1 / 2) :: real)) - 0.3935\<bar> < 0.0001"
    using h by (simp add: abs_less_iff)
  then have e: "\<bar>estimateHackPercent 1000 0.02 0.1 50 200 - 0.3935\<bar> < 0.0001"
    by (simp only: scenarioB_value)
  from a b c d e show ?thesis by blast
qed

text \<open>
  C5 at a concrete provider: \<open>ramTotal = growCost = 6160\<close>, \<open>hackCost = 1980\<close>,
  \<open>growGain = ln 2\<close>, \<open>hackGain = 0.002\<close>, so the two bounds are 7/1125 and 1/2.
\<close>

theorem auto_mode_estimate_witness:
  "estHackPercent (fst (snd (getRatesAtHackLevel (exEnv False (Some (exFormulas 0.002)) True)
      n00dles 10 (exState (- 0.01))))) = Some (7 / 1125) \<and>
   curHackPercent (snd (snd (getRatesAtHackLevel (exEnv False (Some (exFormulas 0.002)) True)
      n00dles 10 (exState (- 0.01))))) = 7 / 1125"
  using auto_mode_estimate
    [where e = "exEnv False (Some (exFormulas 0.002)) True" and f = "exFormulas 0.002"
       and srv = n00dles and hackLevel = 10 and st = "exState (- 0.01)"
       and growCost = 6160 and hackCost = 1980 and growGain = "ln 2" and hackGain = "0.002"]
    ex_formulas_path [of True "- 0.01"] ex_formulas_costs [of "- 0.01"]
  by (simp add: exEnv_def atHackLevel_def exp_minus)

text \<open>
  C6. When the evaluation ends in the fallback and the weaken time is not zero, the triple
  returned is
  \<open>(moneyMax / hackTime, moneyMax / max(hackTime, 200), (3 + minDifficulty\<cdot>0.3) / hackTime)\<close>
  with \<open>hackTime = getWeakenTime / 4\<close>. For \<open>moneyMax = 1000000\<close>, \<open>minDifficulty = 10\<close> and a
  weaken time of 400000 it is \<open>(10, 10, 0.00006)\<close>.
\<close>

theorem fallback_model_rates:
  "(usesFallback e srv hackLevel st \<and> getWeakenTime e (hostname srv) \<noteq> 0 \<longrightarrow>
      fst (getRatesAtHackLevel e srv hackLevel st) =
        (let timeToHack = getWeakenTime e (hostname srv) / 4;
             cappedTimeToHack = max timeToHack 200
         in (moneyMax srv / timeToHack, moneyMax srv / cappedTimeToHack,
             (3 + minDifficulty srv * 0.3) / timeToHack))) \<and>
   fst (getRatesAtHackLevel (scenarioAEnv True fs) scenarioAServer hackLevel st) =
     (10, 10, 6 / 100000)"
proof (intro conjI impI)
  assume "usesFallback e srv hackLevel st \<and> getWeakenTime e (hostname srv) \<noteq> 0"
  then have "fst (getRatesAtHackLevel e srv hackLevel st) = fst (fallbackRates e srv st)"
    by (simp add: getRates_fallback_rates)
  then show "fst (getRatesAtHackLevel e srv hackLevel st) =
        (let timeToHack = getWeakenTime e (hostname srv) / 4;
             cappedTimeToHack = max timeToHack 200
         in (moneyMax srv / timeToHack, moneyMax srv / cappedTimeToHack,
             (3 + minDifficulty srv * 0.3) / timeToHack))"
    by (simp add: fallbackRates_def Let_def)
next
  show "fst (getRatesAtHackLevel (scenarioAEnv True fs) scenarioAServer hackLevel st) =
     (10, 10, 6 / 100000)"
    by (simp add: getRates_disabled fallbackRates_def Let_def ex_defs)
qed

text \<open>
  C6 with no provider: scenario A again, and a weaken time of 400 ms, where the capped
  rate is half the theoretical one.
\<close>

theorem fallback_model_rates_witness:
  "usesFallback (scenarioAEnv False None) scenarioAServer 1 (exState 0) \<and>
   fst (getRatesAtHackLevel (scenarioAEnv False None) scenarioAServer 1 (exState 0)) =
     (10, 10, 6 / 100000) \<and>
   usesFallback quickEnv n00dles 1 (exState 0) \<and>
   fst (getRatesAtHackLevel quickEnv n00dles 1 (exState 0)) = (10, 5, 33 / 1000)"
proof -
  have a: "usesFallback (scenarioAEnv False None) scenarioAServer 1 (exState 0)"
    and b: "usesFallback quickEnv n00dles 1 (exState 0)"
    by (simp_all add: usesFallback_def ex_defs)
  show ?thesis
    using a b
      fallback_model_rates [of "scenarioAEnv False None" scenarioAServer 1 "exState 0"]
      fallback_model_rates [of quickEnv n00dles 1 "exState 0"]
    by (simp add: ex_defs Let_def)
qed

text \<open>
  C7. For a locked server, the callback of lines 225-259 sets \<open>theoreticalGainRate\<close> to the
  server's own theoretical rate at its required level times the gain scale factor, and
  \<open>gainRate\<close> to the minimum of that product and the server's own capped rate, which is
  not multiplied by the scale factor.
\<close>

theorem locked_gain_rate:
  "(let (bestRates, bsrv, st1) =
          getRatesAtHackLevel e (target best) (requiredHackingSkill srv) st;
        ((theoretical, capped, expR), srv1, st2) =
          getRatesAtHackLevel e srv (requiredHackingSkill srv) st1;
        gainScale = (if fst bestRates \<noteq> 0 then theoreticalGainRate best / fst bestRates else 1);
        projected = fst (lockedStep e srv best st)
    in theoreticalGainRate projected = theoretical * gainScale \<and>
       gainRate projected = min (theoretical * gainScale) capped)"
  by (simp add: lockedStep_def Let_def split: prod.splits)

text \<open>
  C7 at a concrete step: the scale factor is 1, the theoretical rate 50, the capped rate 25.
\<close>

theorem locked_gain_rate_witness:
  "theoreticalGainRate (fst (lockedStep quickEnv joesguns exBest (exState 0))) = 50 \<and>
   gainRate (fst (lockedStep quickEnv joesguns exBest (exState 0))) = 25"
  using locked_gain_rate [of quickEnv exBest joesguns "exState 0"]
  by (simp add: rate_defs ex_defs split: prod.splits)

text \<open>
  C8. The claim: a hack gain at or below 1e-10 is logged, coerced up to 1e-10, and the
  coerced value is used in the per-cycle derivations. The source logs the warning and
  bounds \<open>estHackPercent\<close> from below by 1e-10, but \<open>hackGain\<close> is a constant that is never
  assigned again: \<open>hacksPerCycle\<close> divides by the value the provider returned. With a hack
  gain of 5e-11 and \<open>--hack-percent 50\<close> the theoretical rate is
  \<open>500000 / (6160 + 1980 \<cdot> 10^10)\<close>; a hack gain of 1e-10 gives
  \<open>500000 / (6160 + 1980 \<cdot> 5 \<cdot> 10^9)\<close>, which a coerced gain would have given in both
  cases.
\<close>

theorem low_hack_gain_is_used_as_it_is:
  "fst (getRatesAtHackLevel (exEnv False (Some (exFormulas (5 / 10 ^ 11))) False) n00dles 10
          (exState 0.5)) =
     (6250 / 247500000077, 6250 / 247500000077, 52) \<and>
   printed (snd (snd (getRatesAtHackLevel (exEnv False (Some (exFormulas (5 / 10 ^ 11))) False)
          n00dles 10 (exState 0.5)))) =
     [WarnHackGain (5 / 10 ^ 11) ''n00dles'',
      FormulasSummary 10 (1 / 2) (6250 / 247500000077) (25 / 308) 52 1 ''n00dles''] \<and>
   fst (getRatesAtHackLevel (exEnv False (Some (exFormulas (1 / 10 ^ 10))) False) n00dles 10
          (exState 0.5)) =
     (6250 / 123750000077, 6250 / 123750000077, 52)"
  by (simp add: rate_defs ex_defs ln_div)

text \<open>
  C9. The claim: the exp list holds the five servers of highest exp rate, in descending
  order of exp rate. The source sorts a copy by exp rate, reads its element 0, and then
  lists the first five elements of \<open>serverEval\<close>, which is in the order of evaluation. In
  the run \<open>exRun\<close> the list holds the exp rates 0.0033, 0.006, 0.0045 in this order.
\<close>

theorem exp_list_keeps_evaluation_order:
  "case exRun of
     Inl stopped \<Rightarrow> False
   | Inr r \<Rightarrow>
       serverListByExp r =
         [(1, ''n00dles'', 33 / 10000), (2, ''foodnstuff'', 3 / 500),
          (3, ''joesguns'', 9 / 2000)] \<and>
       \<not> sorted_wrt (\<ge>) (map (snd \<circ> snd) (serverListByExp r)) \<and>
       terminal r = [BestServer ''joesguns'' 5, BestExpServer ''foodnstuff'' (3 / 500)]"
proof -
  from exRun_lists obtain r where r: "exRun = Inr r"
    and w: "written r =
       [(''n00dles'', 1, 33 / 10000), (''foodnstuff'', 2, 3 / 500), (''joesguns'', 5, 9 / 2000)]"
    and g: "serverListByGain r =
       [(1, ''n00dles'', 1, Some 1, 1), (2, ''foodnstuff'', 2, Some 1, 1),
        (3, ''joesguns'', 5, Some 1, 50)]"
    and x: "serverListByExp r =
       [(1, ''n00dles'', 33 / 10000), (2, ''foodnstuff'', 3 / 500), (3, ''joesguns'', 9 / 2000)]"
    and t: "terminal r = [BestServer ''joesguns'' 5, BestExpServer ''foodnstuff'' (3 / 500)]"
    by blast
  show ?thesis by (simp add: r w g x t)
qed

text \<open>
  C10. With the provider enabled, the server object that \<open>getRatesAtHackLevel\<close> leaves
  behind has \<open>hackDifficulty\<close> equal to its \<open>minDifficulty\<close>, \<open>moneyAvailable\<close> equal to its
  \<open>moneyMax\<close>, and an \<open>estHackPercent\<close>: the estimate of line 107 when no call throws, and 1
  when the fallback overwrote it. Nothing puts the earlier values back.
\<close>

theorem formulas_path_writes_to_server:
  assumes "\<not> disableFormulas e"
  shows "hackDifficulty (fst (snd (getRatesAtHackLevel e srv hackLevel st))) = minDifficulty srv \<and>
         moneyAvailable (fst (snd (getRatesAtHackLevel e srv hackLevel st))) = moneyMax srv \<and>
         estHackPercent (fst (snd (getRatesAtHackLevel e srv hackLevel st))) =
           (if usesFallback e srv hackLevel st then Some 1
            else estimateWritten e (the (formulas e)) (assumePrepared srv)
                   ((thePlayer st)\<lparr>hacking := hackLevel\<rparr>)) \<and>
         estHackPercent (fst (snd (getRatesAtHackLevel e srv hackLevel st))) \<noteq> None"
proof (cases "usesFallback e srv hackLevel st")
  case True
  with assms show ?thesis
    by (simp add: getRates_fallback_server assumePrepared_reads)
next
  case False
  from getRates_formulas_server [OF False] False show ?thesis
    by (auto simp: assumePrepared_reads atHackLevel_def)
qed

text \<open>
  C10 at a server with \<open>hackDifficulty = 6\<close>, \<open>moneyAvailable = 0\<close> and no \<open>estHackPercent\<close>.
\<close>

theorem formulas_path_writes_to_server_witness:
  "hackDifficulty n00dles = 6 \<and> moneyAvailable n00dles = 0 \<and> estHackPercent n00dles = None \<and>
   hackDifficulty (fst (snd (getRatesAtHackLevel (exEnv False (Some (exFormulas 0.002)) True)
      n00dles 10 (exState (- 0.01))))) = 1 \<and>
   moneyAvailable (fst (snd (getRatesAtHackLevel (exEnv False (Some (exFormulas 0.002)) True)
      n00dles 10 (exState (- 0.01))))) = 1000 \<and>
   estHackPercent (fst (snd (getRatesAtHackLevel (exEnv False (Some (exFormulas 0.002)) True)
      n00dles 10 (exState (- 0.01))))) = Some (7 / 1125)"
proof -
  have w: "estimateWritten (exEnv False (Some (exFormulas 0.002)) True) (exFormulas 0.002)
      (assumePrepared n00dles) ((thePlayer (exState (- 0.01)))\<lparr>hacking := 10\<rparr>) = Some (7 / 1125)"
    by (simp add: path_defs rate_defs ex_defs)
  have n: "hackDifficulty n00dles = 6 \<and> moneyAvailable n00dles = 0 \<and> estHackPercent n00dles = None
      \<and> minDifficulty n00dles = 1 \<and> moneyMax n00dles = 1000"
    by (simp add: ex_defs)
  show ?thesis
    using w n ex_formulas_path [of True "- 0.01"]
      formulas_path_writes_to_server
        [of "exEnv False (Some (exFormulas 0.002)) True" n00dles 10 "exState (- 0.01)"]
    by (simp add: exEnv_def)
qed

end
